theory Spec2Isabelle
  imports Main "HOL-Library.Sublist"
begin

section \<open>Decoder++ core: commands and plugins\<close>

text \<open>
  A shallow embedding of \<^verbatim>\<open>core/command/command.py\<close> and
  \<^verbatim>\<open>core/plugin/abstract_plugin.py\<close>.

  Conventions of the model.
  \<^item> A Python \<^verbatim>\<open>str\<close> is a \<open>string\<close>; a \<open>char\<close> stands for a code point below 256,
    and case mapping is modelled for the ASCII letters only.
  \<^item> A field that may hold \<^verbatim>\<open>None\<close> is an \<open>option\<close>, \<open>None\<close> being Python's \<^verbatim>\<open>None\<close>.
  \<^item> A raise is the left injection of a sum; \<^verbatim>\<open>assert\<close> statements are executed
    (the interpreter's default mode).
  \<^item> A callable supplied from outside (a hook, a callback, the module importer) may change
    the state of the world and may raise: it maps a state \<open>'s\<close> to an outcome and a new
    state. It receives positional and keyword arguments.
\<close>

subsection \<open>Values, exceptions, callables\<close>

datatype pyval = PyNone | PyBool bool | PyInt int | PyStr string | PyList "pyval list"

text \<open>
  The exceptions the two modules raise themselves, the ones a callable from outside may
  raise, and the three built-in exceptions that derive from \<^verbatim>\<open>BaseException\<close> but not from
  \<^verbatim>\<open>Exception\<close>.
\<close>

datatype exn =
    AssertionError string
  | NotImplementedError string
  | TypeError string
  | AttributeError string
  | ImportError string
  | OtherException string
  | SystemExit
  | KeyboardInterrupt
  | GeneratorExit


type_synonym kwargs = "(string \<times> pyval) list"

type_synonym 's outcome = "(exn + pyval) \<times> 's"

type_synonym 's hook = "pyval list \<Rightarrow> kwargs \<Rightarrow> 's \<Rightarrow> 's outcome"

subsection \<open>Built-in string operations\<close>

definition upper_char :: "char \<Rightarrow> char" where
  "upper_char c =
     (let n = (of_char c :: nat) in if 97 \<le> n \<and> n \<le> 122 then char_of (n - 32) else c)"

definition lower_char :: "char \<Rightarrow> char" where
  "lower_char c =
     (let n = (of_char c :: nat) in if 65 \<le> n \<and> n \<le> 90 then char_of (n + 32) else c)"

text \<open>\<^verbatim>\<open>str.capitalize()\<close>: the first character in upper case, the others in lower case.\<close>

fun capitalize :: "string \<Rightarrow> string" where
  "capitalize [] = []"
| "capitalize (c # cs) = upper_char c # map lower_char cs"

text \<open>\<^verbatim>\<open>sep.join(xs)\<close>.\<close>

fun join :: "string \<Rightarrow> string list \<Rightarrow> string" where
  "join sep [] = []"
| "join sep [x] = x"
| "join sep (x # y # ys) = x @ sep @ join sep (y # ys)"

text \<open>\<^verbatim>\<open>"{}".format(x)\<close> for a string or \<^verbatim>\<open>None\<close>.\<close>

fun format_str :: "string option \<Rightarrow> string" where
  "format_str None = ''None''"
| "format_str (Some s) = s"

subsection \<open>Command\<close>

text \<open>
  \<^verbatim>\<open>Command.Builder.build\<close> creates two closures, \<^verbatim>\<open>_select_method\<close> and the title
  lambda. Both refer to the builder object \<^verbatim>\<open>self\<close>, not to the values its fields had
  when \<^verbatim>\<open>build\<close> ran, so they are kept symbolic and evaluated against the builder's
  fields at the time of the call. A hook given from outside is a function of its
  arguments and the state; it does not change the builder.
\<close>

datatype 's select_method = Select_hook "'s hook" | Default_select

datatype 's title_method = Title_hook "'s hook" | Default_title

record 's Command =
  c_name :: string
  c_type :: string
  c_author :: "string option"
  c_title_method :: "'s title_method"
  c_run_method :: "'s hook"
  c_select_method :: "'s select_method"

record 's Builder =
  b_name :: "string option"
  b_type :: "string option"
  b_author :: "string option"
  b_run_method :: "'s hook option"
  b_select_method :: "'s select_method option"
  b_title_method :: "'s title_method option"

definition DECODER :: string where "DECODER = ''Decoder''"
definition ENCODER :: string where "ENCODER = ''Encoder''"
definition HASHER :: string where "HASHER = ''Hasher''"
definition SCRIPT :: string where "SCRIPT = ''Script''"

definition Command_name :: "'s Command \<Rightarrow> string" where
  "Command_name c = c_name c"

definition Command_type :: "'s Command \<Rightarrow> string" where
  "Command_type c = c_type c"

definition Command_author :: "'s Command \<Rightarrow> string option" where
  "Command_author c = c_author c"

text \<open>
  The body of the closure \<^verbatim>\<open>_select_method(*args, **kwargs)\<close>: it calls
  \<^verbatim>\<open>self._run_method(*args)\<close> and returns nothing.
\<close>

definition builder_select_method :: "'s Builder \<Rightarrow> 's hook" where
  "builder_select_method self args kwargs s =
     (case b_run_method self of
        None \<Rightarrow> (Inl (TypeError ''object is not callable''), s)
      | Some run \<Rightarrow>
          (case run args [] s of
             (Inl e, s') \<Rightarrow> (Inl e, s')
           | (Inr r, s') \<Rightarrow> (Inr PyNone, s')))"

text \<open>
  The body of the title lambda:
  \<^verbatim>\<open>"{} {}".format(self._name, self._type.capitalize())\<close>.
\<close>

definition builder_title_method :: "'s Builder \<Rightarrow> 's \<Rightarrow> 's outcome" where
  "builder_title_method self s =
     (case b_type self of
        None \<Rightarrow> (Inl (AttributeError ''capitalize''), s)
      | Some t \<Rightarrow> (Inr (PyStr (format_str (b_name self) @ '' '' @ capitalize t)), s))"

text \<open>
  The methods of a command. The first argument is the builder whose closures the command
  may hold, in its current state; a command whose hooks were all given ignores it.
\<close>

definition Command_title :: "'s Builder \<Rightarrow> 's Command \<Rightarrow> 's \<Rightarrow> 's outcome" where
  "Command_title self c s =
     (case c_title_method c of
        Title_hook f \<Rightarrow> f [] [] s
      | Default_title \<Rightarrow> builder_title_method self s)"

definition Command_select :: "'s Builder \<Rightarrow> 's Command \<Rightarrow> 's hook" where
  "Command_select self c args kwargs s =
     (case c_select_method c of
        Select_hook f \<Rightarrow> f args [] s
      | Default_select \<Rightarrow> builder_select_method self args [] s)"

definition Command_run :: "'s Command \<Rightarrow> 's hook" where
  "Command_run c args kwargs s = c_run_method c args [] s"

definition Command_key :: "'s Command \<Rightarrow> string \<times> string" where
  "Command_key c = (c_name c, c_type c)"

definition Command_eq :: "'s Command \<Rightarrow> 's Command \<Rightarrow> bool" where
  "Command_eq x y = (Command_key x = Command_key y)"

text \<open>The built-in \<^verbatim>\<open>hash\<close> on pairs of strings is a parameter.\<close>

definition Command_hash :: "(string \<times> string \<Rightarrow> int) \<Rightarrow> 's Command \<Rightarrow> int" where
  "Command_hash hash c = hash (Command_key c)"

subsubsection \<open>Builder\<close>

definition Builder_init :: "'s Builder" where
  "Builder_init =
     \<lparr>b_name = None, b_type = None, b_author = None,
      b_run_method = None, b_select_method = None, b_title_method = None\<rparr>"

definition Builder_name :: "string \<Rightarrow> 's Builder \<Rightarrow> 's Builder" where
  "Builder_name name self = self\<lparr>b_name := Some name\<rparr>"

definition Builder_type :: "string \<Rightarrow> 's Builder \<Rightarrow> 's Builder" where
  "Builder_type type self = self\<lparr>b_type := Some type\<rparr>"

definition Builder_author :: "string \<Rightarrow> 's Builder \<Rightarrow> 's Builder" where
  "Builder_author author self = self\<lparr>b_author := Some author\<rparr>"

definition Builder_title :: "'s hook \<Rightarrow> 's Builder \<Rightarrow> 's Builder" where
  "Builder_title title_method self = self\<lparr>b_title_method := Some (Title_hook title_method)\<rparr>"

definition Builder_run :: "'s hook \<Rightarrow> 's Builder \<Rightarrow> 's Builder" where
  "Builder_run run_method self = self\<lparr>b_run_method := Some run_method\<rparr>"

definition Builder_select :: "'s hook \<Rightarrow> 's Builder \<Rightarrow> 's Builder" where
  "Builder_select select_method self =
     self\<lparr>b_select_method := Some (Select_hook select_method)\<rparr>"

definition name_required :: string where
  "name_required = ''Name is required and should not be None or Empty.''"

definition type_required :: string where
  "type_required = ''Type is required and should not be None.''"

definition run_required :: string where
  "run_required = ''Run method or run source is required and should not be None.''"

text \<open>
  \<^verbatim>\<open>build\<close> stores the defaults it supplies in the builder, so it returns the builder
  too. A failed assertion leaves the builder as it was.
\<close>

definition build :: "'s Builder \<Rightarrow> exn + ('s Command \<times> 's Builder)" where
  "build self =
     (case b_name self of
        None \<Rightarrow> Inl (AssertionError name_required)
      | Some name \<Rightarrow>
          if \<not> length name > 0 then Inl (AssertionError name_required)
          else
            (case b_type self of
               None \<Rightarrow> Inl (AssertionError type_required)
             | Some type \<Rightarrow>
                 (case b_run_method self of
                    None \<Rightarrow> Inl (AssertionError run_required)
                  | Some run \<Rightarrow>
                      (let sel = (case b_select_method self of
                                    None \<Rightarrow> Default_select | Some m \<Rightarrow> m);
                           tit = (case b_title_method self of
                                    None \<Rightarrow> Default_title | Some m \<Rightarrow> m);
                           self' = self\<lparr>b_select_method := Some sel,
                                        b_title_method := Some tit\<rparr>
                       in Inr (\<lparr>c_name = name, c_type = type, c_author = b_author self',
                                c_title_method = tit, c_run_method = run,
                                c_select_method = sel\<rparr>, self')))))"

subsubsection \<open>NullCommand\<close>

text \<open>The two methods \<^verbatim>\<open>NullCommand\<close> overrides; their body is \<^verbatim>\<open>pass\<close>.\<close>

definition NullCommand_select :: "'s hook" where
  "NullCommand_select args kwargs s = (Inr PyNone, s)"

definition NullCommand_run :: "'s hook" where
  "NullCommand_run args kwargs s = (Inr PyNone, s)"

text \<open>
  \<^verbatim>\<open>NullCommand.__init__\<close> passes three empty strings, the lambda that returns the empty
  string and its own two bound methods to \<^verbatim>\<open>Command.__init__\<close>.
\<close>

definition NullCommand_init :: "'s Command" where
  "NullCommand_init =
     \<lparr>c_name = [], c_type = [], c_author = Some [],
      c_title_method = Title_hook (\<lambda>args kwargs s. (Inr (PyStr []), s)),
      c_run_method = NullCommand_run,
      c_select_method = Select_hook NullCommand_select\<rparr>"

subsection \<open>AbstractPlugin\<close>

text \<open>
  A plugin object. The last three fields are the methods a concrete plugin class may
  define in place of the inherited ones; \<open>None\<close> means that the method is inherited.
\<close>

record 's AbstractPlugin =
  p_name :: string
  p_type :: string
  p_author :: string
  p_dependencies :: "string list option"
  p_run_override :: "'s hook option"
  p_select_override :: "'s hook option"
  p_can_be_decoded_override :: "(pyval \<Rightarrow> bool) option"

text \<open>The assertion messages (the second without the quotes around the four words).\<close>

definition plugin_name_required :: string where
  "plugin_name_required = ''Name is required and should not be None or Empty''"

definition plugin_type_required :: string where
  "plugin_type_required =
     ''Type is required and should be either DECODER, ENCODER, HASHER or SCRIPT''"

definition plugin_author_required :: string where
  "plugin_author_required = ''Author is required and should not be None or Empty''"

text \<open>
  The constructor: three assertions in the order of the source, then the assignments. A
  plugin of the base class as written in this module inherits every method.
\<close>

definition AbstractPlugin_init ::
  "string option \<Rightarrow> string option \<Rightarrow> string option \<Rightarrow> string list option
     \<Rightarrow> exn + 's AbstractPlugin" where
  "AbstractPlugin_init name type author dependencies =
     (case name of
        None \<Rightarrow> Inl (AssertionError plugin_name_required)
      | Some n \<Rightarrow>
          if \<not> length n > 0 then Inl (AssertionError plugin_name_required)
          else
            (case type of
               None \<Rightarrow> Inl (AssertionError plugin_type_required)
             | Some t \<Rightarrow>
                 if t \<notin> set [DECODER, ENCODER, HASHER, SCRIPT]
                 then Inl (AssertionError plugin_type_required)
                 else
                   (case author of
                      None \<Rightarrow> Inl (AssertionError plugin_author_required)
                    | Some a \<Rightarrow>
                        if \<not> length a > 0 then Inl (AssertionError plugin_author_required)
                        else
                          Inr \<lparr>p_name = n, p_type = t, p_author = a,
                               p_dependencies = dependencies,
                               p_run_override = None, p_select_override = None,
                               p_can_be_decoded_override = None\<rparr>)))"

definition AbstractPlugin_name :: "'s AbstractPlugin \<Rightarrow> string" where
  "AbstractPlugin_name self = p_name self"

definition AbstractPlugin_type :: "'s AbstractPlugin \<Rightarrow> string" where
  "AbstractPlugin_type self = p_type self"


definition AbstractPlugin_author :: "'s AbstractPlugin \<Rightarrow> string" where
  "AbstractPlugin_author self = p_author self"




definition not_implemented :: string where
  "not_implemented = ''Method must be implemented from upper class''"

definition AbstractPlugin_run :: "'s AbstractPlugin \<Rightarrow> 's hook" where
  "AbstractPlugin_run self args kwargs s = (Inl (NotImplementedError not_implemented), s)"

text \<open>\<^verbatim>\<open>self.run(...)\<close>: the method of the object's class.\<close>

definition run :: "'s AbstractPlugin \<Rightarrow> 's hook" where
  "run self args kwargs s =
     (case p_run_override self of
        None \<Rightarrow> AbstractPlugin_run self args kwargs s
      | Some f \<Rightarrow> f args kwargs s)"

text \<open>
  \<^verbatim>\<open>str.splitlines()\<close>: a line ends at a line boundary; carriage return followed by
  line feed is one boundary; the boundary is not part of the line; there is no empty last
  line after a final boundary. The boundaries of a \<^verbatim>\<open>str\<close> below code point 256 are
  line feed, vertical tab, form feed, carriage return, the three separators 0x1C to 0x1E
  and next line 0x85.
\<close>

definition linebreak :: "char \<Rightarrow> bool" where
  "linebreak c = ((of_char c :: nat) \<in> set [0x0A, 0x0B, 0x0C, 0x0D, 0x1C, 0x1D, 0x1E, 0x85])"

fun splitlines_from :: "string \<Rightarrow> string \<Rightarrow> string list" where
  "splitlines_from line [] = (if line = [] then [] else [line])"
| "splitlines_from line [c] = (if linebreak c then [line] else [line @ [c]])"
| "splitlines_from line (c # d # cs) =
     (if c = CHR 0x0D \<and> d = CHR 0x0A then line # splitlines_from [] cs
      else if linebreak c then line # splitlines_from [] (d # cs)
      else splitlines_from (line @ [c]) (d # cs))"

definition splitlines :: "string \<Rightarrow> string list" where
  "splitlines text = splitlines_from [] text"

text \<open>
  \<^verbatim>\<open>str.split(" ")\<close>: the parts between the occurrences of one space; two spaces in a
  row, or a space at either end, give an empty part.
\<close>

fun split_from :: "string \<Rightarrow> string \<Rightarrow> string list" where
  "split_from part [] = [part]"
| "split_from part (c # cs) =
     (if c = CHR '' '' then part # split_from [] cs else split_from (part @ [c]) cs)"

definition split_space :: "string \<Rightarrow> string list" where
  "split_space text_line = split_from [] text_line"

text \<open>
  \<^verbatim>\<open>_run_lines\<close>. The callback receives one part and returns a string or raises; the
  line separator \<^verbatim>\<open>os.linesep\<close> of the platform is a parameter.
\<close>

type_synonym 's callback = "string \<Rightarrow> 's \<Rightarrow> (exn + string) \<times> 's"

fun parts_loop ::
  "'s callback \<Rightarrow> string list \<Rightarrow> string list \<Rightarrow> 's \<Rightarrow> (exn + string list) \<times> 's" where
  "parts_loop callback [] result s = (Inr result, s)"
| "parts_loop callback (text_part # rest) result s =
     (if text_part \<noteq> []
      then (case callback text_part s of
              (Inl e, s') \<Rightarrow> (Inl e, s')
            | (Inr r, s') \<Rightarrow> parts_loop callback rest (result @ [r]) s')
      else parts_loop callback rest result s)"

fun lines_loop ::
  "'s callback \<Rightarrow> string list \<Rightarrow> string list \<Rightarrow> 's \<Rightarrow> (exn + string list) \<times> 's" where
  "lines_loop callback [] lines s = (Inr lines, s)"
| "lines_loop callback (text_line # rest) lines s =
     (case parts_loop callback (split_space text_line) [] s of
        (Inl e, s') \<Rightarrow> (Inl e, s')
      | (Inr result, s') \<Rightarrow> lines_loop callback rest (lines @ [join '' '' result]) s')"

definition run_lines :: "string \<Rightarrow> string \<Rightarrow> 's callback \<Rightarrow> 's \<Rightarrow> (exn + string) \<times> 's" where
  "run_lines linesep text callback s =
     (case lines_loop callback (splitlines text) [] s of
        (Inl e, s') \<Rightarrow> (Inl e, s')
      | (Inr lines, s') \<Rightarrow> (Inr (join linesep lines), s'))"

definition AbstractPlugin_select :: "'s AbstractPlugin \<Rightarrow> 's hook" where
  "AbstractPlugin_select self args kwargs s = run self args [] s"

definition select :: "'s AbstractPlugin \<Rightarrow> 's hook" where
  "select self args kwargs s =
     (case p_select_override self of
        None \<Rightarrow> AbstractPlugin_select self args kwargs s
      | Some f \<Rightarrow> f args kwargs s)"

definition AbstractPlugin_key :: "'s AbstractPlugin \<Rightarrow> string \<times> string" where
  "AbstractPlugin_key self = (p_name self, p_type self)"

definition AbstractPlugin_eq :: "'s AbstractPlugin \<Rightarrow> 's AbstractPlugin \<Rightarrow> bool" where
  "AbstractPlugin_eq x y = (AbstractPlugin_key x = AbstractPlugin_key y)"

definition AbstractPlugin_hash ::
  "(string \<times> string \<Rightarrow> int) \<Rightarrow> 's AbstractPlugin \<Rightarrow> int" where
  "AbstractPlugin_hash hash self = hash (AbstractPlugin_key self)"

subsubsection \<open>DecoderPlugin\<close>

definition DecoderPlugin_init ::
  "string option \<Rightarrow> string option \<Rightarrow> string list option \<Rightarrow> exn + 's AbstractPlugin" where
  "DecoderPlugin_init name author dependencies =
     AbstractPlugin_init name (Some DECODER) author dependencies"

definition DecoderPlugin_can_be_decoded :: "'s AbstractPlugin \<Rightarrow> pyval \<Rightarrow> bool" where
  "DecoderPlugin_can_be_decoded self input = False"

definition can_be_decoded :: "'s AbstractPlugin \<Rightarrow> pyval \<Rightarrow> bool" where
  "can_be_decoded self input =
     (case p_can_be_decoded_override self of
        None \<Rightarrow> DecoderPlugin_can_be_decoded self input
      | Some f \<Rightarrow> f input)"

subsection \<open>Reading the loops\<close>

text \<open>
  The parts of a line that the inner loop of \<^verbatim>\<open>_run_lines\<close> passes to the callback: the
  non-empty ones.
\<close>

definition tokens :: "string \<Rightarrow> string list" where
  "tokens text_line = filter (\<lambda>text_part. text_part \<noteq> []) (split_space text_line)"

text \<open>What a call did, without its value: the exception raised, if any, and the state.\<close>

definition outcome_of :: "(exn + 'a) \<times> 's \<Rightarrow> exn option \<times> 's" where
  "outcome_of r = (case r of (Inl e, s) \<Rightarrow> (Some e, s) | (Inr x, s) \<Rightarrow> (None, s))"

subsection \<open>The token rule of the specification\<close>

text \<open>
  The specification describes \<^verbatim>\<open>_run_lines\<close> as splitting each line into
  whitespace-separated tokens. That reading is written down here, for a callback without
  effects, to be compared with \<open>run_lines\<close>: \<open>split_whitespace\<close> is
  \<^verbatim>\<open>str.split()\<close>, whose separators are the runs of whitespace characters.
\<close>

definition whitespace :: "char \<Rightarrow> bool" where
  "whitespace c =
     ((of_char c :: nat) \<in>
        set [0x09, 0x0A, 0x0B, 0x0C, 0x0D, 0x1C, 0x1D, 0x1E, 0x1F, 0x20, 0x85, 0xA0])"

fun split_whitespace_from :: "string \<Rightarrow> string \<Rightarrow> string list" where
  "split_whitespace_from part [] = (if part = [] then [] else [part])"
| "split_whitespace_from part (c # cs) =
     (if whitespace c
      then (if part = [] then split_whitespace_from [] cs
            else part # split_whitespace_from [] cs)
      else split_whitespace_from (part @ [c]) cs)"

definition split_whitespace :: "string \<Rightarrow> string list" where
  "split_whitespace text_line = split_whitespace_from [] text_line"

definition run_lines_whitespace_spec :: "string \<Rightarrow> string \<Rightarrow> (string \<Rightarrow> string) \<Rightarrow> string" where
  "run_lines_whitespace_spec linesep text f =
     join linesep (map (\<lambda>text_line. join '' '' (map f (split_whitespace text_line)))
                       (splitlines text))"

subsection \<open>Concrete inputs\<close>

text \<open>Callables, plugins and builders used as concrete inputs below; the state is \<open>unit\<close>.\<close>

definition const_hook :: "pyval \<Rightarrow> unit hook" where
  "const_hook v args kwargs s = (Inr v, s)"

definition echo_hook :: "unit hook" where
  "echo_hook args kwargs s = (Inr (PyList args), s)"

text \<open>A \<^verbatim>\<open>run\<close> whose result tells whether it received keyword arguments.\<close>

definition kwargs_seen_hook :: "unit hook" where
  "kwargs_seen_hook args kwargs s = (Inr (PyBool (kwargs \<noteq> [])), s)"

definition base64_builder :: "string \<Rightarrow> unit hook \<Rightarrow> unit Builder" where
  "base64_builder author run_method =
     Builder_run run_method
       (Builder_author author (Builder_type DECODER (Builder_name ''Base64'' Builder_init)))"

definition base64_plugin :: "string list option \<Rightarrow> unit AbstractPlugin" where
  "base64_plugin dependencies =
     \<lparr>p_name = ''Base64'', p_type = DECODER, p_author = ''anonymous'',
      p_dependencies = dependencies,
      p_run_override = None, p_select_override = None, p_can_be_decoded_override = None\<rparr>"

definition kwargs_plugin :: "unit AbstractPlugin" where
  "kwargs_plugin = (base64_plugin None)\<lparr>p_run_override := Some kwargs_seen_hook\<rparr>"



text \<open>Callbacks: upper case, and the token between angle brackets.\<close>

definition upper_callback :: "unit callback" where
  "upper_callback text_part s = (Inr (map upper_char text_part), s)"

definition bracket :: "string \<Rightarrow> string" where
  "bracket text_part = ''<'' @ text_part @ ''>''"

definition bracket_callback :: "unit callback" where
  "bracket_callback text_part s = (Inr (bracket text_part), s)"

definition length_hash :: "string \<times> string \<Rightarrow> int" where
  "length_hash k = int (length (fst k)) * 31 + int (length (snd k))"

text \<open>Two commands that differ in author and run hook only.\<close>

definition alice_command :: "unit Command" where
  "alice_command = \<lparr>c_name = ''Base64'', c_type = DECODER, c_author = Some ''alice'',
           c_title_method = Default_title, c_run_method = const_hook PyNone,
           c_select_method = Default_select\<rparr>"

definition bob_command :: "unit Command" where
  "bob_command = \<lparr>c_name = ''Base64'', c_type = DECODER, c_author = Some ''bob'',
           c_title_method = Default_title, c_run_method = echo_hook,
           c_select_method = Default_select\<rparr>"

text \<open>A command and a builder whose hooks tell whether they received keyword arguments.\<close>

definition kwargs_command :: "unit Command" where
  "kwargs_command = \<lparr>c_name = ''Base64'', c_type = DECODER, c_author = None,
           c_title_method = Default_title, c_run_method = kwargs_seen_hook,
           c_select_method = Select_hook kwargs_seen_hook\<rparr>"

definition kwargs_default_command :: "unit Command" where
  "kwargs_default_command = kwargs_command\<lparr>c_select_method := Default_select\<rparr>"

definition kwargs_builder :: "unit Builder" where
  "kwargs_builder =
     Builder_run kwargs_seen_hook (Builder_type DECODER (Builder_name ''Base64'' Builder_init))"

section \<open>Properties\<close>

subsection \<open>What \<open>build\<close> returns\<close>


lemma build_success:
  assumes "b_name self = Some n" "n \<noteq> []" "b_type self = Some t" "b_run_method self = Some r"
  shows "build self =
    Inr (\<lparr>c_name = n, c_type = t, c_author = b_author self,
          c_title_method = (case b_title_method self of None \<Rightarrow> Default_title | Some m \<Rightarrow> m),
          c_run_method = r,
          c_select_method = (case b_select_method self of None \<Rightarrow> Default_select | Some m \<Rightarrow> m)\<rparr>,
         self\<lparr>b_select_method :=
                 Some (case b_select_method self of None \<Rightarrow> Default_select | Some m \<Rightarrow> m),
              b_title_method :=
                 Some (case b_title_method self of None \<Rightarrow> Default_title | Some m \<Rightarrow> m)\<rparr>)"
  using assms by (simp add: build_def Let_def)

lemma build_failure:
  assumes "b_name self = None \<or> b_name self = Some [] \<or> b_type self = None
           \<or> b_run_method self = None"
  shows "\<exists>msg. build self = Inl (AssertionError msg)"
proof (cases "b_name self")
  case None
  then show ?thesis by (simp add: build_def)
next
  case (Some n)
  show ?thesis
  proof (cases "n = []")
    case True
    with Some show ?thesis by (simp add: build_def)
  next
    case False
    show ?thesis
    proof (cases "b_type self")
      case None
      with Some False show ?thesis by (simp add: build_def)
    next
      case t: (Some t)
      with Some False assms have "b_run_method self = None" by simp
      with Some False t show ?thesis by (simp add: build_def)
    qed
  qed
qed

lemma build_InrD:
  assumes "build self = Inr (c, self')"
  shows "\<exists>n t r. b_name self = Some n \<and> n \<noteq> [] \<and> b_type self = Some t
           \<and> b_run_method self = Some r"
proof (rule ccontr)
  assume "\<not> ?thesis"
  then have "b_name self = None \<or> b_name self = Some [] \<or> b_type self = None
           \<or> b_run_method self = None"
    by (cases "b_name self"; cases "b_type self"; cases "b_run_method self") auto
  from build_failure [OF this] assms show False by auto
qed


lemma build_fields:
  assumes "build self = Inr (c, self')"
  shows "b_name self = Some (c_name c)" "b_type self = Some (c_type c)"
    "c_author c = b_author self" "b_run_method self = Some (c_run_method c)"
proof -
  from build_InrD [OF assms] obtain n t r where
    h: "b_name self = Some n" "n \<noteq> []" "b_type self = Some t" "b_run_method self = Some r"
    by blast
  from build_success [OF h] assms
  have "c_name c = n \<and> c_type c = t \<and> c_author c = b_author self \<and> c_run_method c = r"
    by auto
  with h show "b_name self = Some (c_name c)" "b_type self = Some (c_type c)"
    "c_author c = b_author self" "b_run_method self = Some (c_run_method c)"
    by simp_all
qed

lemma base64_build:
  "build (base64_builder a r) =
     Inr (\<lparr>c_name = ''Base64'', c_type = DECODER, c_author = Some a,
           c_title_method = Default_title, c_run_method = r,
           c_select_method = Default_select\<rparr>,
          (base64_builder a r)\<lparr>b_select_method := Some Default_select,
                                 b_title_method := Some Default_title\<rparr>)"
proof -
  have "build (base64_builder a r) = Inr (\<lparr>c_name = ''Base64'', c_type = DECODER,
      c_author = b_author (base64_builder a r),
      c_title_method = (case b_title_method (base64_builder a r) of
                          None \<Rightarrow> Default_title | Some m \<Rightarrow> m),
      c_run_method = r,
      c_select_method = (case b_select_method (base64_builder a r) of
                          None \<Rightarrow> Default_select | Some m \<Rightarrow> m)\<rparr>,
     (base64_builder a r)\<lparr>b_select_method :=
         Some (case b_select_method (base64_builder a r) of
                 None \<Rightarrow> Default_select | Some m \<Rightarrow> m),
       b_title_method :=
         Some (case b_title_method (base64_builder a r) of
                 None \<Rightarrow> Default_title | Some m \<Rightarrow> m)\<rparr>)"
    by (rule build_success)
       (simp_all add: base64_builder_def Builder_run_def Builder_author_def Builder_type_def
          Builder_name_def Builder_init_def)
  moreover have "b_author (base64_builder a r) = Some a"
    "b_title_method (base64_builder a r) = None"
    "b_select_method (base64_builder a r) = None"
    by (simp_all add: base64_builder_def Builder_run_def Builder_author_def Builder_type_def
          Builder_name_def Builder_init_def)
  ultimately show ?thesis by simp
qed

subsection \<open>Identity of commands and plugins\<close>

text \<open>
  C1. Two commands, and likewise two plugins, are equal and have the same hash exactly
  when their names and their types agree. The author and the hooks play no part: two
  commands built from builders that agree on name and type are equal and have the same
  hash, whatever the other fields of the builders are.
\<close>

theorem identity_key:
  "((Command_eq x y \<and> Command_hash hash x = Command_hash hash y)
      = (Command_name x = Command_name y \<and> Command_type x = Command_type y))
   \<and> ((AbstractPlugin_eq p q \<and> AbstractPlugin_hash hash p = AbstractPlugin_hash hash q)
      = (AbstractPlugin_name p = AbstractPlugin_name q
          \<and> AbstractPlugin_type p = AbstractPlugin_type q))
   \<and> (build b1 = Inr (c1, b1') \<and> build b2 = Inr (c2, b2')
        \<and> b_name b1 = b_name b2 \<and> b_type b1 = b_type b2
      \<longrightarrow> Command_eq c1 c2 \<and> Command_hash hash c1 = Command_hash hash c2)"
proof (intro conjI impI)
  show "(Command_eq x y \<and> Command_hash hash x = Command_hash hash y)
      = (Command_name x = Command_name y \<and> Command_type x = Command_type y)"
    by (auto simp: Command_eq_def Command_hash_def Command_key_def Command_name_def
        Command_type_def)
  show "(AbstractPlugin_eq p q \<and> AbstractPlugin_hash hash p = AbstractPlugin_hash hash q)
      = (AbstractPlugin_name p = AbstractPlugin_name q
          \<and> AbstractPlugin_type p = AbstractPlugin_type q)"
    by (auto simp: AbstractPlugin_eq_def AbstractPlugin_hash_def AbstractPlugin_key_def
        AbstractPlugin_name_def AbstractPlugin_type_def)
  assume h: "build b1 = Inr (c1, b1') \<and> build b2 = Inr (c2, b2')
        \<and> b_name b1 = b_name b2 \<and> b_type b1 = b_type b2"
  then have k: "Command_key c1 = Command_key c2"
    using build_fields(1,2) [of b1 c1 b1'] build_fields(1,2) [of b2 c2 b2']
    by (simp add: Command_key_def)
  from k show "Command_eq c1 c2" by (simp add: Command_eq_def)
  from k show "Command_hash hash c1 = Command_hash hash c2" by (simp add: Command_hash_def)
qed

theorem identity_key_witness:
  "build (base64_builder ''alice'' (const_hook PyNone))
     = Inr (alice_command, (base64_builder ''alice'' (const_hook PyNone))
              \<lparr>b_select_method := Some Default_select, b_title_method := Some Default_title\<rparr>)
   \<and> build (base64_builder ''bob'' echo_hook)
     = Inr (bob_command, (base64_builder ''bob'' echo_hook)
              \<lparr>b_select_method := Some Default_select, b_title_method := Some Default_title\<rparr>)
   \<and> Command_author alice_command \<noteq> Command_author bob_command
   \<and> Command_eq alice_command bob_command
   \<and> Command_hash length_hash alice_command = Command_hash length_hash bob_command"
proof -
  let ?A = "base64_builder ''alice'' (const_hook PyNone)"
  let ?B = "base64_builder ''bob'' echo_hook"
  let ?A' = "?A\<lparr>b_select_method := Some Default_select, b_title_method := Some Default_title\<rparr>"
  let ?B' = "?B\<lparr>b_select_method := Some Default_select, b_title_method := Some Default_title\<rparr>"
  have a: "build ?A = Inr (alice_command, ?A')"
    by (simp add: base64_build alice_command_def)
  have b: "build ?B = Inr (bob_command, ?B')"
    by (simp add: base64_build bob_command_def)
  have k: "b_name ?A = b_name ?B \<and> b_type ?A = b_type ?B"
    by (simp add: base64_builder_def Builder_run_def Builder_author_def Builder_type_def
          Builder_name_def Builder_init_def)
  have d: "Command_author alice_command \<noteq> Command_author bob_command"
    by (simp add: Command_author_def alice_command_def bob_command_def)
  from identity_key [of _ _ length_hash _ _ ?A alice_command ?A' ?B bob_command ?B'] a b k
  have "Command_eq alice_command bob_command
        \<and> Command_hash length_hash alice_command = Command_hash length_hash bob_command"
    by blast
  with a b d show ?thesis by blast
qed

lemma fluent_fields:
  "b_name (Builder_run r (Builder_author a (Builder_type t (Builder_name n Builder_init)))) = Some n"
  "b_type (Builder_run r (Builder_author a (Builder_type t (Builder_name n Builder_init)))) = Some t"
  "b_author (Builder_run r (Builder_author a (Builder_type t (Builder_name n Builder_init)))) = Some a"
  "b_run_method (Builder_run r (Builder_author a (Builder_type t (Builder_name n Builder_init)))) = Some r"
  "b_name (Builder_run r (Builder_type t (Builder_name n Builder_init))) = Some n"
  "b_type (Builder_run r (Builder_type t (Builder_name n Builder_init))) = Some t"
  "b_author (Builder_run r (Builder_type t (Builder_name n Builder_init))) = None"
  "b_run_method (Builder_run r (Builder_type t (Builder_name n Builder_init))) = Some r"
  by (simp_all add: Builder_run_def Builder_author_def Builder_type_def Builder_name_def
      Builder_init_def)

lemma build_accessors:
  assumes "b_name self = Some n" "n \<noteq> []" "b_type self = Some t" "b_run_method self = Some r"
  shows "\<exists>c self'. build self = Inr (c, self') \<and> Command_name c = n \<and> Command_type c = t
           \<and> Command_author c = b_author self"
  by (simp add: build_success [OF assms] Command_name_def Command_type_def Command_author_def)

subsection \<open>Building a command\<close>

text \<open>
  C2. A builder holding a non-empty name, a type and a run hook builds a command, and the
  accessors of the command return the name, the type and the author of the builder. For
  the fluent chain with the author setter the author is the one passed; for the chain
  without it \<^verbatim>\<open>build\<close> succeeds too and the author is \<^verbatim>\<open>None\<close>, the value the
  docstring of \<^verbatim>\<open>Command.author\<close> calls an empty author.
\<close>

theorem build_accessors_roundtrip:
  "(b_name self = Some name \<and> name \<noteq> [] \<and> b_type self = Some type
      \<and> b_run_method self = Some run_method
    \<longrightarrow> (\<exists>c self'. build self = Inr (c, self') \<and> Command_name c = name
           \<and> Command_type c = type \<and> Command_author c = b_author self))
   \<and> (name \<noteq> []
    \<longrightarrow> (\<exists>c self'.
           build (Builder_run run_method (Builder_author author
                    (Builder_type type (Builder_name name Builder_init)))) = Inr (c, self')
           \<and> Command_name c = name \<and> Command_type c = type
           \<and> Command_author c = Some author))
   \<and> (name \<noteq> []
    \<longrightarrow> (\<exists>c self'.
           build (Builder_run run_method
                    (Builder_type type (Builder_name name Builder_init))) = Inr (c, self')
           \<and> Command_name c = name \<and> Command_type c = type
           \<and> Command_author c = None))"
proof (intro conjI impI)
  assume "b_name self = Some name \<and> name \<noteq> [] \<and> b_type self = Some type
      \<and> b_run_method self = Some run_method"
  then show "\<exists>c self'. build self = Inr (c, self') \<and> Command_name c = name
           \<and> Command_type c = type \<and> Command_author c = b_author self"
    using build_accessors [of self name type run_method] by blast
next
  assume n: "name \<noteq> []"
  let ?b = "Builder_run run_method (Builder_author author
                    (Builder_type type (Builder_name name Builder_init)))"
  from build_accessors [of ?b name type run_method] n
  show "\<exists>c self'. build ?b = Inr (c, self') \<and> Command_name c = name \<and> Command_type c = type
           \<and> Command_author c = Some author"
    by (simp add: fluent_fields)
next
  assume n: "name \<noteq> []"
  let ?b = "Builder_run run_method (Builder_type type (Builder_name name Builder_init))"
  from build_accessors [of ?b name type run_method] n
  show "\<exists>c self'. build ?b = Inr (c, self') \<and> Command_name c = name \<and> Command_type c = type
           \<and> Command_author c = None"
    by (simp add: fluent_fields)
qed

theorem build_accessors_roundtrip_witness:
  "''Base64'' \<noteq> []
   \<and> (\<exists>c self'.
         build (Builder_run (const_hook PyNone) (Builder_author ''alice''
                  (Builder_type DECODER (Builder_name ''Base64'' Builder_init)))) = Inr (c, self')
         \<and> Command_name c = ''Base64'' \<and> Command_type c = DECODER
         \<and> Command_author c = Some ''alice'')
   \<and> (\<exists>c self'.
         build (Builder_run (const_hook PyNone)
                  (Builder_type DECODER (Builder_name ''Base64'' Builder_init))) = Inr (c, self')
         \<and> Command_name c = ''Base64'' \<and> Command_type c = DECODER
         \<and> Command_author c = None)"
  using build_accessors_roundtrip [of
      "Builder_run (const_hook PyNone) (Builder_type DECODER (Builder_name ''Base64'' Builder_init))"
      "''Base64''" DECODER "const_hook PyNone" "''alice''"]
  by simp

subsection \<open>Failing construction\<close>

lemma plugin_init_success:
  assumes "n \<noteq> []" "t \<in> {DECODER, ENCODER, HASHER, SCRIPT}" "a \<noteq> []"
  shows "AbstractPlugin_init (Some n) (Some t) (Some a) deps =
     Inr \<lparr>p_name = n, p_type = t, p_author = a, p_dependencies = deps,
          p_run_override = None, p_select_override = None,
          p_can_be_decoded_override = None\<rparr>"
  using assms by (auto simp: AbstractPlugin_init_def)

lemma plugin_init_failure:
  assumes "name = None \<or> name = Some [] \<or> author = None \<or> author = Some []
           \<or> type \<notin> {Some DECODER, Some ENCODER, Some HASHER, Some SCRIPT}"
  shows "\<exists>msg. AbstractPlugin_init name type author deps = Inl (AssertionError msg)"
proof (cases name)
  case None
  then show ?thesis by (simp add: AbstractPlugin_init_def)
next
  case n: (Some n)
  show ?thesis
  proof (cases type)
    case None
    with n show ?thesis by (simp add: AbstractPlugin_init_def)
  next
    case t: (Some t)
    show ?thesis
    proof (cases author)
      case None
      with n t show ?thesis by (simp add: AbstractPlugin_init_def)
    next
      case a: (Some a)
      from assms n t a have "n = [] \<or> a = [] \<or> t \<notin> {DECODER, ENCODER, HASHER, SCRIPT}"
        by auto
      with n t a show ?thesis by (auto simp: AbstractPlugin_init_def)
    qed
  qed
qed

text \<open>
  C3. \<^verbatim>\<open>build\<close> raises an \<^verbatim>\<open>AssertionError\<close> whenever the name is unset or empty, the
  type is unset or the run hook is unset. The constructor of \<^verbatim>\<open>AbstractPlugin\<close> raises an
  \<^verbatim>\<open>AssertionError\<close> whenever the name or the author is \<^verbatim>\<open>None\<close> or empty, or the type
  is not one of the four type names.
\<close>

theorem construction_fails:
  "(b_name self = None \<or> b_name self = Some [] \<or> b_type self = None
      \<or> b_run_method self = None
    \<longrightarrow> (\<exists>msg. build self = Inl (AssertionError msg)))
   \<and> (name = None \<or> name = Some [] \<or> author = None \<or> author = Some []
      \<or> type \<notin> {Some DECODER, Some ENCODER, Some HASHER, Some SCRIPT}
    \<longrightarrow> (\<exists>msg. (AbstractPlugin_init name type author deps :: exn + 's AbstractPlugin)
                  = Inl (AssertionError msg)))"
  using build_failure [of self] plugin_init_failure [of name author type deps]
  by blast

theorem construction_fails_witness:
  "b_run_method (Builder_type DECODER (Builder_name ''Base64'' Builder_init) :: unit Builder) = None
   \<and> (\<exists>msg. build (Builder_type DECODER (Builder_name ''Base64'' Builder_init) :: unit Builder)
               = Inl (AssertionError msg))
   \<and> Some ''Cipher'' \<notin> {Some DECODER, Some ENCODER, Some HASHER, Some SCRIPT}
   \<and> (\<exists>msg. (AbstractPlugin_init (Some ''Base64'') (Some ''Cipher'') (Some ''alice'') None
                 :: exn + unit AbstractPlugin) = Inl (AssertionError msg))"
proof -
  let ?b = "Builder_type DECODER (Builder_name ''Base64'' Builder_init) :: unit Builder"
  have r: "b_run_method ?b = None"
    by (simp add: Builder_type_def Builder_name_def Builder_init_def)
  have t: "Some ''Cipher'' \<notin> {Some DECODER, Some ENCODER, Some HASHER, Some SCRIPT}"
    by (simp add: DECODER_def ENCODER_def HASHER_def SCRIPT_def)
  from construction_fails [of ?b "Some ''Base64''" "Some ''alice''" "Some ''Cipher''" None] r t
  show ?thesis by blast
qed

subsection \<open>Unresolved dependencies\<close>









subsection \<open>Running a callback over the tokens of a text\<close>

lemma parts_loop_pure:
  assumes "\<forall>p s. callback p s = (Inr (f p), s)"
  shows "parts_loop callback ps result s
           = (Inr (result @ map f (filter (\<lambda>p. p \<noteq> []) ps)), s)"
  using assms by (induction ps arbitrary: result) simp_all

lemma lines_loop_pure:
  assumes "\<forall>p s. callback p s = (Inr (f p), s)"
  shows "lines_loop callback ls lines s
           = (Inr (lines @ map (\<lambda>l. join '' '' (map f (tokens l))) ls), s)"
  by (induction ls arbitrary: lines) (simp_all add: parts_loop_pure [OF assms] tokens_def)

lemma run_lines_pure:
  assumes "\<forall>p s. callback p s = (Inr (f p), s)"
  shows "run_lines linesep text callback s
           = (Inr (join linesep (map (\<lambda>l. join '' '' (map f (tokens l))) (splitlines text))), s)"
  by (simp add: run_lines_def lines_loop_pure [OF assms])

lemma splitlines_example: "splitlines ''AB CD\<newline>EF'' = [''AB CD'', ''EF'']"
  by code_simp

lemma splitlines_example2: "splitlines ''A  B'' = [''A  B'']"
  by code_simp

lemma tokens_examples:
  "tokens ''AB CD'' = [''AB'', ''CD'']" "tokens ''EF'' = [''EF'']" "tokens ''A  B'' = [''A'', ''B'']"
  by (simp_all add: tokens_def split_space_def)

lemma whitespace_space: "whitespace CHR '' ''"
  by code_simp

lemma split_whitespace_from_space:
  assumes "\<forall>c \<in> set l. whitespace c \<longrightarrow> c = CHR '' ''"
  shows "split_whitespace_from part l = filter (\<lambda>p. p \<noteq> []) (split_from part l)"
  using assms
proof (induction l arbitrary: part)
  case Nil
  show ?case by simp
next
  case (Cons c cs)
  then have r: "\<forall>c \<in> set cs. whitespace c \<longrightarrow> c = CHR '' ''" by simp
  show ?case
  proof (cases "c = CHR '' ''")
    case True
    then show ?thesis by (simp add: whitespace_space Cons.IH [OF r])
  next
    case False
    with Cons.prems have "\<not> whitespace c" by simp
    with False show ?thesis by (simp add: Cons.IH [OF r])
  qed
qed

lemma split_whitespace_tokens:
  "\<forall>c \<in> set l. whitespace c \<longrightarrow> c = CHR '' '' \<Longrightarrow> split_whitespace l = tokens l"
  by (simp add: split_whitespace_def tokens_def split_space_def split_whitespace_from_space)


lemma parts_loop_nonempty:
  "parts_loop callback ps result s = parts_loop callback (filter (\<lambda>p. p \<noteq> []) ps) result s"
proof (induction ps arbitrary: result s)
  case Nil
  show ?case by simp
next
  case (Cons p ps)
  show ?case
  proof (cases "p = []")
    case True
    then show ?thesis by (simp add: Cons.IH)
  next
    case False
    obtain r s1 where c: "callback p s = (r, s1)" by (cases "callback p s")
    with False show ?thesis by (cases r) (simp_all add: Cons.IH)
  qed
qed

lemma parts_loop_result:
  "outcome_of (parts_loop callback ps result s) = outcome_of (parts_loop callback ps [] s)"
proof (induction ps arbitrary: result s)
  case Nil
  show ?case by (simp add: outcome_of_def)
next
  case (Cons p ps)
  show ?case
  proof (cases "p = []")
    case True
    then show ?thesis using Cons.IH [of result s] by simp
  next
    case False
    obtain r s1 where c: "callback p s = (r, s1)" by (cases "callback p s")
    show ?thesis
    proof (cases r)
      case (Inl e)
      with c False show ?thesis by simp
    next
      case (Inr x)
      with c False show ?thesis
        using Cons.IH [of "result @ [x]" s1] Cons.IH [of "[x]" s1] by simp
    qed
  qed
qed

lemma parts_loop_append:
  "outcome_of (parts_loop callback (ps @ qs) result s) =
     (case parts_loop callback ps result s of
        (Inl e, s') \<Rightarrow> (Some e, s')
      | (Inr r, s') \<Rightarrow> outcome_of (parts_loop callback qs [] s'))"
proof (induction ps arbitrary: result s)
  case Nil
  show ?case using parts_loop_result [of callback qs result s] by simp
next
  case (Cons p ps)
  show ?case
  proof (cases "p = []")
    case True
    then show ?thesis using Cons.IH [of result s] by simp
  next
    case False
    obtain r s1 where c: "callback p s = (r, s1)" by (cases "callback p s")
    show ?thesis
    proof (cases r)
      case (Inl e)
      with c False show ?thesis by (simp add: outcome_of_def)
    next
      case (Inr x)
      with c False show ?thesis using Cons.IH [of "result @ [x]" s1] by simp
    qed
  qed
qed

lemma lines_loop_calls:
  "outcome_of (lines_loop callback ls lines s)
     = outcome_of (parts_loop callback (concat (map tokens ls)) [] s)"
proof (induction ls arbitrary: lines s)
  case Nil
  show ?case by (simp add: outcome_of_def)
next
  case (Cons l ls)
  obtain r s1 where p: "parts_loop callback (split_space l) [] s = (r, s1)"
    by (cases "parts_loop callback (split_space l) [] s")
  then have t: "parts_loop callback (tokens l) [] s = (r, s1)"
    using parts_loop_nonempty [of callback "split_space l" "[]" s] by (simp add: tokens_def)
  show ?case
  proof (cases r)
    case (Inl e)
    with p have "outcome_of (lines_loop callback (l # ls) lines s) = (Some e, s1)"
      by (simp add: outcome_of_def)
    moreover from Inl t
    have "outcome_of (parts_loop callback (tokens l @ concat (map tokens ls)) [] s)
            = (Some e, s1)"
      by (simp add: parts_loop_append)
    ultimately show ?thesis by simp
  next
    case (Inr x)
    with p have "outcome_of (lines_loop callback (l # ls) lines s)
        = outcome_of (parts_loop callback (concat (map tokens ls)) [] s1)"
      using Cons.IH [of "lines @ [join '' '' x]" s1] by simp
    moreover from Inr t
    have "outcome_of (parts_loop callback (tokens l @ concat (map tokens ls)) [] s)
            = outcome_of (parts_loop callback (concat (map tokens ls)) [] s1)"
      by (simp add: parts_loop_append)
    ultimately show ?thesis by simp
  qed
qed

lemma run_lines_calls:
  "outcome_of (run_lines linesep text callback s)
     = outcome_of (parts_loop callback (concat (map tokens (splitlines text))) [] s)"
proof -
  obtain r s1 where l: "lines_loop callback (splitlines text) [] s = (r, s1)"
    by (cases "lines_loop callback (splitlines text) [] s")
  then have "outcome_of (run_lines linesep text callback s) = outcome_of (r, s1)"
    by (cases r) (simp_all add: run_lines_def outcome_of_def)
  with l lines_loop_calls [of callback "splitlines text" "[]" s] show ?thesis by simp
qed


lemma upper_example:
  "join ''\<newline>'' (map (\<lambda>l. join '' '' (map (map upper_char) (tokens l)))
                        (splitlines ''ab  cd\<newline>ef''))
     = ''AB CD\<newline>EF''"
  by code_simp

text \<open>
  C5, as amended. \<^verbatim>\<open>_run_lines\<close> splits the text into lines and each line at every
  single space (not at other whitespace); the callback is applied to the non-empty parts,
  line by line and in order, until it raises, so the exception and the final state are
  those of the inner loop run over all these parts. For a callback that returns \<open>f\<close> of
  its argument and has no effect, the result is the lines joined with the line separator,
  each line being the images of its non-empty parts joined with one space. So the text
  \<^verbatim>\<open>"AB CD\nEF"\<close> keeps its two lines of two and one token, and \<^verbatim>\<open>"A  B"\<close> gives the two
  images joined with one space.
\<close>

theorem run_lines_tokens:
  "outcome_of (run_lines linesep text callback s)
     = outcome_of (parts_loop callback (concat (map tokens (splitlines text))) [] s)
   \<and> ((\<forall>p s. callback p s = (Inr (f p), s)) \<longrightarrow>
        run_lines linesep text callback s
          = (Inr (join linesep (map (\<lambda>l. join '' '' (map f (tokens l))) (splitlines text))), s)
        \<and> run_lines linesep ''AB CD\<newline>EF'' callback s
          = (Inr (f ''AB'' @ '' '' @ f ''CD'' @ linesep @ f ''EF''), s)
        \<and> run_lines linesep ''A  B'' callback s = (Inr (f ''A'' @ '' '' @ f ''B''), s))"
proof (intro conjI impI)
  show "outcome_of (run_lines linesep text callback s)
     = outcome_of (parts_loop callback (concat (map tokens (splitlines text))) [] s)"
    by (rule run_lines_calls)
next
  assume h: "\<forall>p s. callback p s = (Inr (f p), s)"
  show "run_lines linesep text callback s
          = (Inr (join linesep (map (\<lambda>l. join '' '' (map f (tokens l))) (splitlines text))), s)"
    by (rule run_lines_pure [OF h])
  show "run_lines linesep ''AB CD\<newline>EF'' callback s
          = (Inr (f ''AB'' @ '' '' @ f ''CD'' @ linesep @ f ''EF''), s)"
    by (simp add: run_lines_pure [OF h] splitlines_example tokens_examples)
  show "run_lines linesep ''A  B'' callback s = (Inr (f ''A'' @ '' '' @ f ''B''), s)"
    by (simp add: run_lines_pure [OF h] splitlines_example2 tokens_examples)
qed

theorem run_lines_tokens_witness:
  "(\<forall>p s. upper_callback p s = (Inr (map upper_char p), s))
   \<and> run_lines ''\<newline>'' ''ab  cd\<newline>ef'' upper_callback () = (Inr ''AB CD\<newline>EF'', ())"
proof -
  have h: "\<forall>p s. upper_callback p s = (Inr (map upper_char p), s)"
    by (simp add: upper_callback_def)
  from run_lines_tokens [of "''\<newline>''" "''ab  cd\<newline>ef''" upper_callback "()" "map upper_char"] h
  have "run_lines ''\<newline>'' ''ab  cd\<newline>ef'' upper_callback ()
          = (Inr (join ''\<newline>'' (map (\<lambda>l. join '' '' (map (map upper_char) (tokens l)))
                        (splitlines ''ab  cd\<newline>ef''))), ())"
    by blast
  with h show ?thesis by (simp only: upper_example simp_thms)
qed

text \<open>
  C5 as stated has the tokens separated by whitespace. On the line \<^verbatim>\<open>"A\tB"\<close> that rule
  gives the tokens A and B; \<^verbatim>\<open>_run_lines\<close> passes the whole line to the callback.
\<close>

theorem run_lines_tab_counterexample:
  "fst (run_lines ''\<newline>'' [CHR ''A'', CHR 0x09, CHR ''B''] bracket_callback ())
     = Inr [CHR ''<'', CHR ''A'', CHR 0x09, CHR ''B'', CHR ''>'']
   \<and> run_lines_whitespace_spec ''\<newline>'' [CHR ''A'', CHR 0x09, CHR ''B''] bracket = ''<A> <B>''
   \<and> fst (run_lines ''\<newline>'' [CHR ''A'', CHR 0x09, CHR ''B''] bracket_callback ())
     \<noteq> Inr (run_lines_whitespace_spec ''\<newline>'' [CHR ''A'', CHR 0x09, CHR ''B''] bracket)"
  by code_simp

subsection \<open>The defaults that \<^verbatim>\<open>build\<close> supplies\<close>






text \<open>
  The two closures follow the builder: after a setter has changed the builder, the default
  title and the default select of a command built before use the new values.
\<close>

lemma default_title_reads_builder:
  assumes "c_title_method c = Default_title" "b_type self = Some t"
  shows "Command_title (Builder_name n self) c s = (Inr (PyStr (n @ '' '' @ capitalize t)), s)"
  using assms by (simp add: Command_title_def builder_title_method_def Builder_name_def)

lemma default_select_reads_builder:
  assumes "c_select_method c = Default_select"
  shows "Command_select (Builder_run g self) c args kwargs s =
     (case g args [] s of
        (Inl e, s1) \<Rightarrow> (Inl e, s1)
      | (Inr r, s1) \<Rightarrow> (Inr PyNone, s1))"
  using assms by (simp add: Command_select_def builder_select_method_def Builder_run_def)

subsection \<open>Running and selecting a plugin\<close>

text \<open>
  C7, as amended. \<^verbatim>\<open>AbstractPlugin.run\<close> raises \<^verbatim>\<open>NotImplementedError\<close> for every input,
  so \<^verbatim>\<open>run\<close> does on every plugin that does not override it. The inherited
  \<^verbatim>\<open>select\<close> calls \<^verbatim>\<open>run\<close> of the same object with the positional arguments only and
  returns its result.
\<close>

theorem plugin_run_select:
  "AbstractPlugin_run self args kwargs s = (Inl (NotImplementedError not_implemented), s)
   \<and> (p_run_override self = None \<longrightarrow>
        run self args kwargs s = (Inl (NotImplementedError not_implemented), s))
   \<and> AbstractPlugin_select self args kwargs s = run self args [] s
   \<and> (p_select_override self = None \<longrightarrow> select self args kwargs s = run self args [] s)"
  by (simp add: AbstractPlugin_run_def run_def AbstractPlugin_select_def select_def)

theorem plugin_run_select_witness:
  "p_run_override (base64_plugin None) = None
   \<and> run (base64_plugin None) [PyStr ''QQ==''] [] ()
       = (Inl (NotImplementedError not_implemented), ())
   \<and> p_select_override kwargs_plugin = None
   \<and> select kwargs_plugin [PyStr ''QQ==''] [] () = run kwargs_plugin [PyStr ''QQ==''] [] ()
   \<and> select kwargs_plugin [PyStr ''QQ==''] [] () = (Inr (PyBool False), ())"
proof -
  have a: "p_run_override (base64_plugin None) = None"
    by (simp add: base64_plugin_def)
  have b: "p_select_override kwargs_plugin = None"
    by (simp add: kwargs_plugin_def base64_plugin_def)
  have c: "run kwargs_plugin [PyStr ''QQ==''] [] () = (Inr (PyBool False), ())"
    by (simp add: run_def kwargs_plugin_def kwargs_seen_hook_def)
  from plugin_run_select [of "base64_plugin None" "[PyStr ''QQ=='']" "[]" "()"] a
  have d: "run (base64_plugin None) [PyStr ''QQ==''] [] ()
       = (Inl (NotImplementedError not_implemented), ())"
    by blast
  from plugin_run_select [of kwargs_plugin "[PyStr ''QQ=='']" "[]" "()"] b
  have e: "select kwargs_plugin [PyStr ''QQ==''] [] () = run kwargs_plugin [PyStr ''QQ==''] [] ()"
    by blast
  from a b c d e show ?thesis by simp
qed

text \<open>
  C7 as stated has \<^verbatim>\<open>select\<close> forward to \<^verbatim>\<open>run\<close> on the same arguments. A keyword argument
  does not reach \<^verbatim>\<open>run\<close>: on a plugin whose \<^verbatim>\<open>run\<close> tells whether it received keyword
  arguments, \<^verbatim>\<open>select\<close> and \<^verbatim>\<open>run\<close> differ on the same arguments.
\<close>

theorem select_drops_kwargs:
  "p_select_override kwargs_plugin = None
   \<and> run kwargs_plugin [PyStr ''QQ==''] [(''key'', PyInt 1)] () = (Inr (PyBool True), ())
   \<and> select kwargs_plugin [PyStr ''QQ==''] [(''key'', PyInt 1)] () = (Inr (PyBool False), ())
   \<and> select kwargs_plugin [PyStr ''QQ==''] [(''key'', PyInt 1)] ()
       \<noteq> run kwargs_plugin [PyStr ''QQ==''] [(''key'', PyInt 1)] ()"
  by (simp add: select_def AbstractPlugin_select_def run_def kwargs_plugin_def
      base64_plugin_def kwargs_seen_hook_def)

subsection \<open>Decoder plugins\<close>

lemma DECODER_known: "DECODER \<in> {DECODER, ENCODER, HASHER, SCRIPT}"
  by simp

lemma decoder_init_success:
  assumes "n \<noteq> []" "a \<noteq> []"
  shows "DecoderPlugin_init (Some n) (Some a) deps =
     Inr \<lparr>p_name = n, p_type = DECODER, p_author = a, p_dependencies = deps,
          p_run_override = None, p_select_override = None,
          p_can_be_decoded_override = None\<rparr>"
  unfolding DecoderPlugin_init_def
  by (rule plugin_init_success [OF assms(1) DECODER_known assms(2)])

lemma decoder_init_Inr:
  assumes "DecoderPlugin_init name author deps = Inr (self :: 'a AbstractPlugin)"
  shows "\<exists>n a. name = Some n \<and> n \<noteq> [] \<and> author = Some a \<and> a \<noteq> []"
proof (rule ccontr)
  assume "\<not> ?thesis"
  then have "name = None \<or> name = Some [] \<or> author = None \<or> author = Some []"
    by (cases name; cases author) auto
  then have "name = None \<or> name = Some [] \<or> author = None \<or> author = Some []
           \<or> Some DECODER \<notin> {Some DECODER, Some ENCODER, Some HASHER, Some SCRIPT}"
    by blast
  then have "\<exists>msg. (AbstractPlugin_init name (Some DECODER) author deps
                      :: exn + 'a AbstractPlugin) = Inl (AssertionError msg)"
    by (rule plugin_init_failure)
  with assms show False
    by (auto simp: DecoderPlugin_init_def)
qed

text \<open>
  C8. Every plugin that the constructor of \<^verbatim>\<open>DecoderPlugin\<close> returns has the type
  \<^verbatim>\<open>"Decoder"\<close>, whatever name, author and dependencies were passed; the constructor has
  no parameter for the type, and it succeeds for every non-empty name and author. Without
  an override \<^verbatim>\<open>can_be_decoded\<close> returns \<^verbatim>\<open>False\<close> for every input.
\<close>

theorem decoder_plugin_type:
  "(DecoderPlugin_init name author deps = Inr (self :: 'a AbstractPlugin) \<longrightarrow>
      AbstractPlugin_type self = ''Decoder'' \<and> can_be_decoded self input = False)
   \<and> (n \<noteq> [] \<and> a \<noteq> [] \<longrightarrow>
        (\<exists>self. (DecoderPlugin_init (Some n) (Some a) deps :: exn + 'a AbstractPlugin) = Inr self
           \<and> AbstractPlugin_name self = n \<and> AbstractPlugin_author self = a
           \<and> AbstractPlugin_type self = ''Decoder''))
   \<and> DecoderPlugin_can_be_decoded self input = False"
proof (intro conjI impI)
  assume h: "DecoderPlugin_init name author deps = Inr self"
  from decoder_init_Inr [OF h] obtain n a where
    e: "name = Some n" "n \<noteq> []" "author = Some a" "a \<noteq> []" by blast
  have "(DecoderPlugin_init (Some n) (Some a) deps :: exn + 'a AbstractPlugin) =
     Inr \<lparr>p_name = n, p_type = DECODER, p_author = a, p_dependencies = deps,
          p_run_override = None, p_select_override = None,
          p_can_be_decoded_override = None\<rparr>"
    using e(2,4) by (rule decoder_init_success)
  with h e
  have s: "self = \<lparr>p_name = n, p_type = DECODER, p_author = a, p_dependencies = deps,
          p_run_override = None, p_select_override = None,
          p_can_be_decoded_override = None\<rparr>"
    by simp
  show "AbstractPlugin_type self = ''Decoder''"
    by (simp add: s AbstractPlugin_type_def DECODER_def)
  show "can_be_decoded self input = False"
    by (simp add: s can_be_decoded_def DecoderPlugin_can_be_decoded_def)
next
  assume "n \<noteq> [] \<and> a \<noteq> []"
  then show "\<exists>self. (DecoderPlugin_init (Some n) (Some a) deps :: exn + 'a AbstractPlugin)
           = Inr self
           \<and> AbstractPlugin_name self = n \<and> AbstractPlugin_author self = a
           \<and> AbstractPlugin_type self = ''Decoder''"
    by (simp add: decoder_init_success AbstractPlugin_name_def AbstractPlugin_author_def
        AbstractPlugin_type_def DECODER_def)
next
  show "DecoderPlugin_can_be_decoded self input = False"
    by (simp add: DecoderPlugin_can_be_decoded_def)
qed

theorem decoder_plugin_type_witness:
  "(DecoderPlugin_init (Some ''Base64'') (Some ''anonymous'') (Some [''base64''])
      :: exn + unit AbstractPlugin) = Inr (base64_plugin (Some [''base64'']))
   \<and> AbstractPlugin_type (base64_plugin (Some [''base64''])) = ''Decoder''
   \<and> can_be_decoded (base64_plugin (Some [''base64''])) (PyStr ''QQ=='') = False"
proof -
  have i: "(DecoderPlugin_init (Some ''Base64'') (Some ''anonymous'') (Some [''base64''])
      :: exn + unit AbstractPlugin) = Inr (base64_plugin (Some [''base64'']))"
    by (simp add: decoder_init_success base64_plugin_def)
  from decoder_plugin_type [of "Some ''Base64''" "Some ''anonymous''" "Some [''base64'']"
      "base64_plugin (Some [''base64''])" "PyStr ''QQ==''"] i
  show ?thesis by blast
qed

subsection \<open>The null command\<close>

text \<open>
  C9. \<^verbatim>\<open>run\<close> and \<^verbatim>\<open>select\<close> of a \<^verbatim>\<open>NullCommand\<close> return \<^verbatim>\<open>None\<close> for every input,
  raise nothing and leave the state as it is; this holds for the two methods the class
  defines and for the hooks it stores. Its name, type and author are empty strings.
\<close>

theorem null_command:
  "NullCommand_run args kwargs s = (Inr PyNone, s)
   \<and> NullCommand_select args kwargs s = (Inr PyNone, s)
   \<and> Command_run NullCommand_init args kwargs s = (Inr PyNone, s)
   \<and> Command_select self NullCommand_init args kwargs s = (Inr PyNone, s)
   \<and> Command_name NullCommand_init = []
   \<and> Command_type NullCommand_init = []
   \<and> Command_author NullCommand_init = Some []"
  by (simp add: NullCommand_run_def NullCommand_select_def Command_run_def Command_select_def
      NullCommand_init_def Command_name_def Command_type_def Command_author_def)

subsection \<open>Keyword arguments\<close>

text \<open>
  C10. \<^verbatim>\<open>Command.run\<close> calls the run hook with the positional arguments and no keyword
  argument, \<^verbatim>\<open>Command.select\<close> does the same with the select hook, and the default select
  of the builder calls the run hook of the builder in the same way: the result of
  neither method depends on the keyword arguments.
\<close>

theorem kwargs_discarded:
  "Command_run c args kwargs s = c_run_method c args [] s
   \<and> (c_select_method c = Select_hook f \<longrightarrow>
        Command_select self c args kwargs s = f args [] s)
   \<and> (c_select_method c = Default_select \<and> b_run_method self = Some g \<longrightarrow>
        Command_select self c args kwargs s =
          (case g args [] s of
             (Inl e, s1) \<Rightarrow> (Inl e, s1)
           | (Inr r, s1) \<Rightarrow> (Inr PyNone, s1)))
   \<and> (b_run_method self = Some g \<longrightarrow>
        builder_select_method self args kwargs s =
          (case g args [] s of
             (Inl e, s1) \<Rightarrow> (Inl e, s1)
           | (Inr r, s1) \<Rightarrow> (Inr PyNone, s1)))
   \<and> Command_run c args kwargs s = Command_run c args [] s
   \<and> Command_select self c args kwargs s = Command_select self c args [] s"
  by (simp add: Command_run_def Command_select_def builder_select_method_def)

theorem kwargs_discarded_witness:
  "c_select_method kwargs_command = Select_hook kwargs_seen_hook
   \<and> c_select_method kwargs_default_command = Default_select
   \<and> b_run_method kwargs_builder = Some kwargs_seen_hook
   \<and> Command_run kwargs_command [PyStr ''QQ==''] [(''key'', PyInt 1)] () = (Inr (PyBool False), ())
   \<and> Command_select kwargs_builder kwargs_command [PyStr ''QQ==''] [(''key'', PyInt 1)] ()
       = (Inr (PyBool False), ())
   \<and> Command_select kwargs_builder kwargs_default_command [PyStr ''QQ==''] [(''key'', PyInt 1)] ()
       = (Inr PyNone, ())"
proof -
  have a: "c_select_method kwargs_command = Select_hook kwargs_seen_hook"
    "c_run_method kwargs_command = kwargs_seen_hook"
    by (simp_all add: kwargs_command_def)
  have b: "c_select_method kwargs_default_command = Default_select"
    by (simp add: kwargs_default_command_def)
  have c: "b_run_method kwargs_builder = Some kwargs_seen_hook"
    by (simp add: kwargs_builder_def Builder_run_def)
  have k: "kwargs_seen_hook [PyStr ''QQ==''] [] () = (Inr (PyBool False), ())"
    by (simp add: kwargs_seen_hook_def)
  note t = kwargs_discarded [of _ "[PyStr ''QQ=='']" "[(''key'', PyInt 1)]" "()"
      kwargs_seen_hook kwargs_builder kwargs_seen_hook]
  from t [of kwargs_command] a k
  have r: "Command_run kwargs_command [PyStr ''QQ==''] [(''key'', PyInt 1)] ()
      = (Inr (PyBool False), ())"
    by simp
  from t [of kwargs_command] a k
  have s: "Command_select kwargs_builder kwargs_command [PyStr ''QQ==''] [(''key'', PyInt 1)] ()
       = (Inr (PyBool False), ())"
    by simp
  from t [of kwargs_default_command] b c
  have "Command_select kwargs_builder kwargs_default_command [PyStr ''QQ=='']
          [(''key'', PyInt 1)] ()
       = (case kwargs_seen_hook [PyStr ''QQ==''] [] () of
             (Inl e, s1) \<Rightarrow> (Inl e, s1)
           | (Inr r, s1) \<Rightarrow> (Inr PyNone, s1))"
    by blast
  with k have d: "Command_select kwargs_builder kwargs_default_command [PyStr ''QQ=='']
          [(''key'', PyInt 1)] () = (Inr PyNone, ())"
    by simp
  from a b c r s d show ?thesis by blast
qed

end
